theory Spec2Isabelle
  imports Main "HOL-Library.Word" "HOL-Library.AList"
begin

section \<open>Python values, exceptions and library functions\<close>

text \<open>
  JSON-serialisable Python values. A \<open>dict\<close> with string keys is an association list;
  \<open>key in d\<close> is membership in the keys, \<open>d[key]\<close> is \<open>map_of d key\<close>.
\<close>

datatype json =
    JNull
  | JBool bool
  | JInt int
  | JStr string
  | JList "json list"
  | JDict "(string \<times> json) list"

type_synonym jdict = "(string \<times> json) list"

text \<open>
  The subclasses of PyJWT's \<open>jwt.InvalidTokenError\<close> that \<open>jwt.decode\<close> raises.
\<close>

datatype jwt_error =
    DecodeError
  | InvalidAlgorithmError
  | InvalidSignatureError
  | ExpiredSignatureError

text \<open>
  Exceptions. \<open>HTTPException\<close> is FastAPI's, with its status code, its detail and its
  headers (none when the \<open>raise\<close> gives none); it is a subclass of \<open>Exception\<close>, as
  all the others are. \<open>OtherException\<close> is any exception raised by a collaborator,
  with the text \<open>str(e)\<close> gives for it.
\<close>

datatype exn =
    HTTPException nat json "(string \<times> string) list"
  | KeyError string
  | ValueError string
  | InvalidTokenError jwt_error
  | OtherException string

text \<open>
  Library functions whose text the models below do not fix: \<open>json.dumps\<close> (plain and
  with \<open>sort_keys=True\<close>), \<open>json.loads\<close> (of a cached payload, a dict),
  \<open>datetime.isoformat\<close> of a time and the \<open>str\<close> of an \<open>HTTPException\<close>.
\<close>

record pylib =
  json_dumps :: "json \<Rightarrow> string"
  json_dumps_sort_keys :: "json \<Rightarrow> string"
  json_loads :: "string \<Rightarrow> exn + jdict"
  isoformat :: "nat \<Rightarrow> string"
  str_http_exception :: "nat \<Rightarrow> json \<Rightarrow> string"

definition str_jwt_error :: "jwt_error \<Rightarrow> string" where
  "str_jwt_error e =
     (case e of
        DecodeError \<Rightarrow> ''Not enough segments''
      | InvalidAlgorithmError \<Rightarrow> ''The specified alg value is not allowed''
      | InvalidSignatureError \<Rightarrow> ''Signature verification failed''
      | ExpiredSignatureError \<Rightarrow> ''Signature has expired'')"

text \<open>\<open>str(e)\<close>: a \<open>KeyError\<close> prints the \<open>repr\<close> of its key.\<close>

definition str_exn :: "pylib \<Rightarrow> exn \<Rightarrow> string" where
  "str_exn lib e =
     (case e of
        HTTPException code det _ \<Rightarrow> str_http_exception lib code det
      | KeyError k \<Rightarrow> [CHR 0x27] @ k @ [CHR 0x27]
      | ValueError m \<Rightarrow> m
      | InvalidTokenError j \<Rightarrow> str_jwt_error j
      | OtherException m \<Rightarrow> m)"

text \<open>\<open>str(n)\<close> of a non-negative integer, in decimal.\<close>

definition digit_char :: "nat \<Rightarrow> char" where
  "digit_char d = ''0123456789'' ! d"

function str_nat :: "nat \<Rightarrow> string" where
  "str_nat n = (if n < 10 then [digit_char n] else str_nat (n div 10) @ [digit_char (n mod 10)])"
  by pat_completeness auto
termination
  by (relation "measure id") auto

declare str_nat.simps [simp del]

definition str_int :: "int \<Rightarrow> string" where
  "str_int i = (if i < 0 then CHR ''-'' # str_nat (nat (- i)) else str_nat (nat i))"

section \<open>blockchain/token.py\<close>

type_synonym byte = "8 word"

text \<open>A \<open>PublicKey\<close> is its 32 bytes; \<open>bytes(key)\<close> is the key itself.\<close>

type_synonym pubkey = "byte list"

text \<open>\<open>int.from_bytes(bs, "little")\<close>; the empty byte string gives 0.\<close>

fun from_bytes_little :: "byte list \<Rightarrow> int" where
  "from_bytes_little [] = 0"
| "from_bytes_little (b # bs) = uint b + 256 * from_bytes_little bs"

text \<open>
  \<open>data[i:j]\<close> for \<open>0 \<le> i \<le> j\<close>: a Python slice never raises, it returns the bytes
  of the range that exist.
\<close>

definition py_slice :: "nat \<Rightarrow> nat \<Rightarrow> 'a list \<Rightarrow> 'a list" where
  "py_slice i j xs = take (j - i) (drop i xs)"

record staking_data =
  amount :: int
  start_time :: int
  last_claim :: int

definition parse_staking_data :: "byte list \<Rightarrow> staking_data" where
  "parse_staking_data data =
     \<lparr> amount = from_bytes_little (py_slice 0 8 data),
       start_time = from_bytes_little (py_slice 8 16 data),
       last_claim = from_bytes_little (py_slice 16 24 data) \<rparr>"

text \<open>
  The ledger RPC client and the solana library, as far as \<open>CynixToken\<close> uses them:
  \<^item> \<open>PublicKey(s)\<close> raises on a string that is no address;
  \<^item> \<open>get_token_accounts_by_owner\<close> raises or returns the token accounts; an account
    is given by what \<open>int(account.account.data.parsed["info"]["tokenAmount"]["amount"])\<close>
    evaluates to, a balance or the exception of a malformed entry;
  \<^item> \<open>get_account_info\<close> raises or returns the account's data, \<open>None\<close> when there is
    no account;
  \<^item> \<open>PublicKey.find_program_address(seeds, program)[0]\<close>.
\<close>

record solana_client =
  PublicKey :: "string \<Rightarrow> exn + pubkey"
  get_token_accounts_by_owner :: "pubkey \<Rightarrow> pubkey \<Rightarrow> exn + (exn + int) list"
  get_account_info :: "pubkey \<Rightarrow> exn + byte list option"
  find_program_address :: "byte list list \<Rightarrow> pubkey \<Rightarrow> pubkey"

record cynix_token =
  client :: solana_client
  token_mint :: pubkey
  staking_program :: pubkey

text \<open>The seed \<open>b"staking"\<close>.\<close>

definition staking_seed :: "byte list" where
  "staking_seed = [0x73, 0x74, 0x61, 0x6B, 0x69, 0x6E, 0x67]"

definition derive_staking_address :: "cynix_token \<Rightarrow> pubkey \<Rightarrow> pubkey" where
  "derive_staking_address self wallet =
     find_program_address (client self)
       [token_mint self, wallet, staking_seed] (staking_program self)"

text \<open>\<open>_get_staking_info\<close>: \<open>None\<close> when there is no account or anything raises.\<close>

definition get_staking_info :: "cynix_token \<Rightarrow> pubkey \<Rightarrow> staking_data option" where
  "get_staking_info self wallet =
     (case get_account_info (client self) (derive_staking_address self wallet) of
        Inl e \<Rightarrow> None
      | Inr None \<Rightarrow> None
      | Inr (Some data) \<Rightarrow> Some (parse_staking_data data))"

record access_levels =
  alpha_access :: bool
  raw_data_access :: bool
  api_access :: bool
  governance_access :: bool

record access_info =
  total_tokens :: int
  staked_amount :: int
  access_levels :: access_levels

text \<open>The loop over the token accounts; the first entry that raises ends it.\<close>

fun sum_balances :: "int \<Rightarrow> (exn + int) list \<Rightarrow> exn + int" where
  "sum_balances total_balance [] = Inr total_balance"
| "sum_balances total_balance (account # accounts) =
     (case account of
        Inl e \<Rightarrow> Inl e
      | Inr balance \<Rightarrow> sum_balances (total_balance + balance) accounts)"

text \<open>
  The dictionary that \<open>check_access_level\<close> returns on success, as the function of the
  local variables \<open>total_tokens\<close> and \<open>staked_amount\<close> that the \<open>return\<close> writes out.
\<close>

definition access_dict :: "int \<Rightarrow> int \<Rightarrow> access_info" where
  "access_dict total_tokens' staked_amount' =
     \<lparr> total_tokens = total_tokens',
       staked_amount = staked_amount',
       access_levels =
         \<lparr> alpha_access = (total_tokens' \<ge> 1000),
           raw_data_access = (staked_amount' \<ge> 5000),
           api_access = (total_tokens' \<ge> 10000),
           governance_access = (total_tokens' \<ge> 50000) \<rparr> \<rparr>"

text \<open>
  \<open>check_access_level\<close>: \<open>Inl msg\<close> is the dictionary \<open>{"error": msg}\<close> of the
  \<open>except\<close> branch.
\<close>

definition check_access_level :: "pylib \<Rightarrow> cynix_token \<Rightarrow> string \<Rightarrow> string + access_info" where
  "check_access_level lib self wallet_address =
     (case PublicKey (client self) wallet_address of
        Inl e \<Rightarrow> Inl (str_exn lib e)
      | Inr pubkey \<Rightarrow>
          (case get_token_accounts_by_owner (client self) pubkey (token_mint self) of
             Inl e \<Rightarrow> Inl (str_exn lib e)
           | Inr token_accounts \<Rightarrow>
               (case sum_balances 0 token_accounts of
                  Inl e \<Rightarrow> Inl (str_exn lib e)
                | Inr total_balance \<Rightarrow>
                    (let staked = (case get_staking_info self pubkey of
                                     None \<Rightarrow> 0
                                   | Some staking_info \<Rightarrow> amount staking_info)
                     in Inr (access_dict (total_balance + staked) staked)))))"

section \<open>The shared key-value store\<close>

text \<open>
  The Redis server behind \<open>aioredis\<close>, as far as the code uses it. The three families of
  keys the code writes have different prefixes (\<open>ratelimit:\<close> for counters,
  \<open>cynix:raw:\<close> for cached payloads, \<open>api:request_logs\<close> and \<open>cynix:access_logs\<close>
  for lists), so each family has its own map. A counter or a cached string has an optional
  time, in unix seconds, at which it expires; an expired key is absent.
\<close>

record redis =
  counters :: "string \<rightharpoonup> int \<times> nat option"
  strings :: "string \<rightharpoonup> string \<times> nat option"
  lists :: "string \<rightharpoonup> string list"

definition live :: "nat \<Rightarrow> ('v \<times> nat option) option \<Rightarrow> 'v option" where
  "live now entry =
     (case entry of
        None \<Rightarrow> None
      | Some (v, None) \<Rightarrow> Some v
      | Some (v, Some expires_at) \<Rightarrow> if now < expires_at then Some v else None)"

text \<open>\<open>INCR\<close>: a missing key counts from 0; the key keeps its time to live.\<close>

definition redis_incr :: "string \<Rightarrow> nat \<Rightarrow> redis \<Rightarrow> int \<times> redis" where
  "redis_incr key now r =
     (case live now (counters r key) of
        None \<Rightarrow> (1, r\<lparr>counters := (counters r)(key \<mapsto> (1, None))\<rparr>)
      | Some v \<Rightarrow>
          (v + 1, r\<lparr>counters := (counters r)(key \<mapsto> (v + 1, snd (the (counters r key))))\<rparr>))"

definition redis_expire :: "string \<Rightarrow> nat \<Rightarrow> nat \<Rightarrow> redis \<Rightarrow> redis" where
  "redis_expire key seconds now r =
     (case live now (counters r key) of
        None \<Rightarrow> r
      | Some v \<Rightarrow> r\<lparr>counters := (counters r)(key \<mapsto> (v, Some (now + seconds)))\<rparr>)"

definition redis_get :: "string \<Rightarrow> nat \<Rightarrow> redis \<Rightarrow> string option" where
  "redis_get key now r = live now (strings r key)"

definition redis_setex :: "string \<Rightarrow> nat \<Rightarrow> string \<Rightarrow> nat \<Rightarrow> redis \<Rightarrow> redis" where
  "redis_setex key seconds val now r =
     r\<lparr>strings := (strings r)(key \<mapsto> (val, Some (now + seconds)))\<rparr>"

definition redis_lrange_all :: "string \<Rightarrow> redis \<Rightarrow> string list" where
  "redis_lrange_all key r = (case lists r key of None \<Rightarrow> [] | Some l \<Rightarrow> l)"

definition redis_lpush :: "string \<Rightarrow> string \<Rightarrow> redis \<Rightarrow> redis" where
  "redis_lpush key val r = r\<lparr>lists := (lists r)(key \<mapsto> val # redis_lrange_all key r)\<rparr>"

text \<open>\<open>LTRIM key start stop\<close> with non-negative indices; an empty list is no key.\<close>

definition redis_ltrim :: "string \<Rightarrow> nat \<Rightarrow> nat \<Rightarrow> redis \<Rightarrow> redis" where
  "redis_ltrim key start stop r =
     (let kept = take (Suc stop - start) (drop start (redis_lrange_all key r))
      in r\<lparr>lists := (if kept = [] then (lists r)(key := None)
                        else (lists r)(key \<mapsto> kept))\<rparr>)"

text \<open>
  What a request handler can change: the store, and the calls made to the underlying data
  fetchers, recorded in order with the newest first.
\<close>

record world =
  redis :: redis
  fetch_calls :: "(string \<times> jdict) list"

section \<open>api/middleware.py\<close>

record request =
  request_headers :: "(string \<times> string) list"
  client_host :: string

record response =
  status_code :: nat
  headers :: "(string \<times> string) list"
  body :: json

text \<open>\<open>self.rate_limit\<close> and \<open>self.window\<close>, as \<open>__init__\<close> sets them.\<close>

definition rate_limit :: int where
  "rate_limit = 100"

definition window :: nat where
  "window = 60"

text \<open>\<open>f"ratelimit:{client_id}:{current // self.window}"\<close>\<close>

definition window_key :: "string \<Rightarrow> nat \<Rightarrow> string" where
  "window_key client_id current =
     ''ratelimit:'' @ client_id @ '':'' @ str_nat (current div window)"

text \<open>\<open>request.headers.get("X-API-Key", request.client.host)\<close>\<close>

definition client_id_of :: "request \<Rightarrow> string" where
  "client_id_of request =
     (case map_of (request_headers request) ''X-API-Key'' of
        Some k \<Rightarrow> k
      | None \<Rightarrow> client_host request)"

text \<open>
  \<open>RateLimiter.dispatch\<close>. \<open>current\<close> is \<open>int(time.time())\<close>, which is also the second
  the store reads on its clock; \<open>call_next\<close> is the rest of the application. \<open>Inl e\<close> is
  the exception \<open>e\<close> raised.
\<close>

definition dispatch ::
  "(request \<Rightarrow> world \<Rightarrow> (exn + response) \<times> world) \<Rightarrow> request \<Rightarrow> nat \<Rightarrow> world
     \<Rightarrow> (exn + response) \<times> world" where
  "dispatch call_next request current w =
     (let client_id = client_id_of request;
          key = window_key client_id current;
          (request_count, r1) = redis_incr key current (redis w);
          r2 = (if request_count = 1 then redis_expire key window current r1 else r1);
          w2 = w\<lparr>redis := r2\<rparr>
      in if request_count > rate_limit
         then (Inl (HTTPException 429 (JStr ''Rate limit exceeded'') []), w2)
         else (case call_next request w2 of
                 (Inl e, w3) \<Rightarrow> (Inl e, w3)
               | (Inr response, w3) \<Rightarrow>
                   (Inr (response\<lparr>headers :=
                      AList.update ''X-RateLimit-Reset''
                        (str_nat ((current div window * window) + window))
                        (AList.update ''X-RateLimit-Remaining''
                           (str_int (max 0 (rate_limit - request_count)))
                           (AList.update ''X-RateLimit-Limit'' (str_int rate_limit)
                              (headers response)))\<rparr>), w3)))"

text \<open>
  For stating properties of \<open>dispatch\<close>: the value a counter key holds at a time (0 when
  the key is absent or expired), the counting steps of \<open>dispatch\<close> on their own (the
  increment and the expiry set on a count of 1), and the exception of a rejected request.
\<close>

definition counter_value :: "string \<Rightarrow> nat \<Rightarrow> redis \<Rightarrow> int" where
  "counter_value key now r = (case live now (counters r key) of None \<Rightarrow> 0 | Some v \<Rightarrow> v)"

definition count_request :: "string \<Rightarrow> nat \<Rightarrow> redis \<Rightarrow> int \<times> redis" where
  "count_request key current r =
     (let (request_count, r1) = redis_incr key current r;
          r2 = (if request_count = 1 then redis_expire key window current r1 else r1)
      in (request_count, r2))"

definition rate_limit_exceeded :: exn where
  "rate_limit_exceeded = HTTPException 429 (JStr ''Rate limit exceeded'') []"

definition rejected :: "exn + response \<Rightarrow> bool" where
  "rejected result = (result = Inl rate_limit_exceeded)"


text \<open>
  What \<open>jwt.decode\<close> reads in an API key: whether the string is a well-formed token, the
  algorithm of its header, whether its signature is the HS256 signature under the key given
  to \<open>jwt.decode\<close>, and the claims \<open>exp\<close> (whole unix seconds) and \<open>wallet_address\<close>
  of its payload, as far as they are present.
\<close>

record api_key =
  well_formed :: bool
  alg :: string
  signature_valid :: bool
  claim_exp :: "int option"
  claim_wallet_address :: "string option"

text \<open>
  PyJWT's \<open>jwt.decode(api_key, key, algorithms=["HS256"])\<close> at the time \<open>now\<close>, in
  microseconds since the epoch: it checks the form, the algorithm and the signature, and
  then, by default, that an \<open>exp\<close> claim is not in the past. Each failure is a subclass of
  \<open>jwt.InvalidTokenError\<close>. Its checks of other registered claims are left out.
\<close>

definition jwt_decode :: "api_key \<Rightarrow> int \<Rightarrow> jwt_error + api_key" where
  "jwt_decode k now =
     (if \<not> well_formed k then Inl DecodeError
      else if alg k \<noteq> ''HS256'' then Inl InvalidAlgorithmError
      else if \<not> signature_valid k then Inl InvalidSignatureError
      else (case claim_exp k of
              None \<Rightarrow> Inr k
            | Some e \<Rightarrow> if e * 1000000 \<le> now then Inl ExpiredSignatureError else Inr k))"

text \<open>
  \<open>verify_api_key\<close>. \<open>datetime.fromtimestamp\<close> gives local time and
  \<open>datetime.utcnow\<close> gives UTC, both without a time zone; \<open>utc_offset\<close> is the
  server's local time minus UTC, in seconds. The \<open>except\<close> clause catches
  \<open>jwt.InvalidTokenError\<close> only.
\<close>

definition verify_api_key :: "int \<Rightarrow> api_key \<Rightarrow> int \<Rightarrow> exn + string" where
  "verify_api_key utc_offset k now =
     (case jwt_decode k now of
        Inl e \<Rightarrow> Inl (HTTPException 401 (JStr ''Invalid API key'') [])
      | Inr payload \<Rightarrow>
          (case claim_exp payload of
             None \<Rightarrow> Inl (KeyError ''exp'')
           | Some e \<Rightarrow>
               if (e + utc_offset) * 1000000 < now
               then Inl (HTTPException 401 (JStr ''API key expired'') [])
               else (case claim_wallet_address payload of
                       None \<Rightarrow> Inl (KeyError ''wallet_address'')
                     | Some wallet \<Rightarrow> Inr wallet)))"

section \<open>services/data_access.py\<close>

text \<open>
  \<open>DataAccessService\<close>. The methods \<open>_fetch_github_data\<close>, \<open>_fetch_twitter_data\<close>,
  \<open>_fetch_blockchain_data\<close>, \<open>_get_metric_data_points\<close> and
  \<open>_aggregate_by_interval\<close> are called but not defined in the repository: they are
  fields here, functions of the arguments they are called with that return or raise.
\<close>

record data_access_service =
  cynix_token :: cynix_token
  fetch_github_data :: "jdict \<Rightarrow> exn + jdict"
  fetch_twitter_data :: "jdict \<Rightarrow> exn + jdict"
  fetch_blockchain_data :: "jdict \<Rightarrow> exn + jdict"
  get_metric_data_points :: "string \<Rightarrow> int \<Rightarrow> int \<Rightarrow> exn + json"
  aggregate_by_interval :: "json \<Rightarrow> int \<Rightarrow> int \<Rightarrow> int \<Rightarrow> exn + json"

definition cache_ttl :: nat where
  "cache_ttl = 300"

text \<open>\<open>_generate_cache_key\<close>: \<open>None\<close> and the empty dict are both false.\<close>

definition generate_cache_key :: "pylib \<Rightarrow> string \<Rightarrow> jdict option \<Rightarrow> string" where
  "generate_cache_key lib data_type params =
     (case params of
        None \<Rightarrow> ''cynix:raw:'' @ data_type
      | Some p \<Rightarrow>
          if p = [] then ''cynix:raw:'' @ data_type
          else ''cynix:raw:'' @ data_type @ '':'' @ json_dumps_sort_keys lib (JDict p))"

text \<open>\<open>params or {}\<close>\<close>

definition params_or_empty :: "jdict option \<Rightarrow> jdict" where
  "params_or_empty params = (case params of None \<Rightarrow> [] | Some p \<Rightarrow> p)"

text \<open>The dictionary \<open>data_fetchers\<close> of \<open>_fetch_raw_data\<close>.\<close>

definition data_fetchers :: "data_access_service \<Rightarrow> (string \<times> (jdict \<Rightarrow> exn + jdict)) list" where
  "data_fetchers self =
     [(''github'', fetch_github_data self),
      (''twitter'', fetch_twitter_data self),
      (''blockchain'', fetch_blockchain_data self)]"

text \<open>\<open>_fetch_raw_data\<close>; a call to a fetcher is recorded whether it returns or raises.\<close>

definition fetch_raw_data ::
  "data_access_service \<Rightarrow> string \<Rightarrow> jdict option \<Rightarrow> world \<Rightarrow> (exn + jdict) \<times> world" where
  "fetch_raw_data self data_type params w =
     (case map_of (data_fetchers self) data_type of
        None \<Rightarrow> (Inl (ValueError (''Unsupported data type: '' @ data_type)), w)
      | Some fetcher \<Rightarrow>
          (fetcher (params_or_empty params),
           w\<lparr>fetch_calls := (data_type, params_or_empty params) # fetch_calls w\<rparr>))"

text \<open>\<open>_log_data_access\<close>: the entry, and the push and trim of the list.\<close>

definition log_entry :: "pylib \<Rightarrow> string \<Rightarrow> string \<Rightarrow> jdict option \<Rightarrow> nat \<Rightarrow> json" where
  "log_entry lib wallet_address data_type params now =
     JDict [(''wallet_address'', JStr wallet_address),
            (''data_type'', JStr data_type),
            (''params'', (case params of None \<Rightarrow> JNull | Some p \<Rightarrow> JDict p)),
            (''timestamp'', JStr (isoformat lib now))]"

definition log_data_access ::
  "pylib \<Rightarrow> string \<Rightarrow> string \<Rightarrow> jdict option \<Rightarrow> nat \<Rightarrow> redis \<Rightarrow> redis" where
  "log_data_access lib wallet_address data_type params now r =
     redis_ltrim ''cynix:access_logs'' 0 9999
       (redis_lpush ''cynix:access_logs''
          (json_dumps lib (log_entry lib wallet_address data_type params now)) r)"

text \<open>The access log, newest entry first: \<open>LRANGE cynix:access_logs 0 -1\<close>.\<close>

definition access_log :: "world \<Rightarrow> string list" where
  "access_log w = redis_lrange_all ''cynix:access_logs'' (redis w)"

text \<open>The dictionary \<open>{"error": msg}\<close>.\<close>

definition error_dict :: "string \<Rightarrow> jdict" where
  "error_dict msg = [(''error'', JStr msg)]"

text \<open>
  \<open>get_raw_data\<close> at the unix second \<open>now\<close>. Every exception inside it ends in the
  \<open>except\<close> branch, which returns \<open>{"error": str(e)}\<close>; subscripting the error
  dictionary of \<open>check_access_level\<close> with \<open>"access_levels"\<close> is a \<open>KeyError\<close>.
\<close>

definition get_raw_data ::
  "pylib \<Rightarrow> data_access_service \<Rightarrow> string \<Rightarrow> string \<Rightarrow> jdict option \<Rightarrow> nat \<Rightarrow> world
     \<Rightarrow> jdict \<times> world" where
  "get_raw_data lib self wallet_address data_type params now w =
     (case check_access_level lib (cynix_token self) wallet_address of
        Inl msg \<Rightarrow> (error_dict (str_exn lib (KeyError ''access_levels'')), w)
      | Inr access_info \<Rightarrow>
          if \<not> raw_data_access (access_levels access_info)
          then (error_dict ''Insufficient token stake for raw data access'', w)
          else
            (let cache_key = generate_cache_key lib data_type params;
                 cached_data = redis_get cache_key now (redis w)
             in if cached_data \<noteq> None \<and> cached_data \<noteq> Some []
                then (case json_loads lib (the cached_data) of
                        Inl e \<Rightarrow> (error_dict (str_exn lib e), w)
                      | Inr payload \<Rightarrow> (payload, w))
                else (case fetch_raw_data self data_type params w of
                        (Inl e, w1) \<Rightarrow> (error_dict (str_exn lib e), w1)
                      | (Inr data, w1) \<Rightarrow>
                          (let r2 = redis_setex cache_key cache_ttl
                                      (json_dumps lib (JDict data)) now (redis w1);
                               r3 = log_data_access lib wallet_address data_type params now r2
                           in (data, w1\<lparr>redis := r3\<rparr>)))))"






section \<open>api/routes.py\<close>

text \<open>
  \<open>get_data\<close>, the handler of \<open>GET /api/v1/data/{data_type}\<close>, with the service it
  constructs. The \<open>raise\<close> of the 403 is inside the \<open>try\<close>, and
  \<open>except Exception\<close> catches an \<open>HTTPException\<close> as it catches any other exception.
\<close>

definition get_data ::
  "pylib \<Rightarrow> data_access_service \<Rightarrow> string \<Rightarrow> string \<Rightarrow> jdict option \<Rightarrow> nat \<Rightarrow> world
     \<Rightarrow> (exn + jdict) \<times> world" where
  "get_data lib data_service data_type wallet_address params now w =
     (let (result, w1) = get_raw_data lib data_service wallet_address data_type params now w;
          tried = (case map_of result ''error'' of
                     Some err \<Rightarrow> Inl (HTTPException 403 err [])
                   | None \<Rightarrow> Inr result)
      in case tried of
           Inl e \<Rightarrow> (Inl (HTTPException 500 (JStr (str_exn lib e)) []), w1)
         | Inr res \<Rightarrow> (Inr res, w1))"

section \<open>Examples\<close>

text \<open>
  A ledger for examples: every non-empty string is an address, the wallet holds the given
  token accounts, and its staking account has the given data.
\<close>

definition example_client :: "(exn + int) list \<Rightarrow> byte list option \<Rightarrow> solana_client" where
  "example_client accounts staking =
     \<lparr> PublicKey = (\<lambda>s. if s = [] then Inl (ValueError ''invalid public key input'')
                          else Inr (replicate 32 7)),
       get_token_accounts_by_owner = (\<lambda>owner mint. Inr accounts),
       get_account_info = (\<lambda>address. Inr staking),
       find_program_address = (\<lambda>seeds program. concat seeds) \<rparr>"

definition example_token :: "(exn + int) list \<Rightarrow> byte list option \<Rightarrow> cynix_token" where
  "example_token accounts staking =
     \<lparr> client = example_client accounts staking,
       token_mint = replicate 32 1,
       staking_program = replicate 32 2 \<rparr>"

definition example_lib :: pylib where
  "example_lib =
     \<lparr> json_dumps = (\<lambda>j. ''{..}''),
       json_dumps_sort_keys = (\<lambda>j. ''{..}''),
       json_loads = (\<lambda>s. if s = ''{..}'' then Inr [(''stars'', JInt 5)]
                           else Inl (ValueError ''Expecting value'')),
       isoformat = (\<lambda>t. ''2024-01-01T00:00:00''),
       str_http_exception = (\<lambda>code det. str_nat code @ '': '' @
                               (case det of JStr s \<Rightarrow> s | _ \<Rightarrow> ''?'')) \<rparr>"

text \<open>A well-formed staking account: amount 10000, start time 1700000000, last claim 1700003600.\<close>

definition example_staking_bytes :: "byte list" where
  "example_staking_bytes =
     [0x10, 0x27, 0, 0, 0, 0, 0, 0,
      0x00, 0xF1, 0x53, 0x65, 0, 0, 0, 0,
      0x10, 0xFF, 0x53, 0x65, 0, 0, 0, 0]"

text \<open>A staking account of 24 bytes with an amount below 256 and both times 0.\<close>

definition small_staking_bytes :: "byte \<Rightarrow> byte list" where
  "small_staking_bytes a =
     [a, 0, 0, 0, 0, 0, 0, 0,
      0, 0, 0, 0, 0, 0, 0, 0,
      0, 0, 0, 0, 0, 0, 0, 0]"

text \<open>An empty store, a request without an API key, and an application that answers 200.\<close>

definition empty_world :: world where
  "empty_world =
     \<lparr> redis = \<lparr> counters = Map.empty, strings = Map.empty, lists = Map.empty \<rparr>,
       fetch_calls = [] \<rparr>"

definition example_request :: request where
  "example_request = \<lparr> request_headers = [], client_host = ''10.0.0.1'' \<rparr>"

definition example_handler :: "request \<Rightarrow> world \<Rightarrow> (exn + response) \<times> world" where
  "example_handler request w =
     (Inr \<lparr> status_code = 200, headers = [], body = JDict [] \<rparr>, w)"

text \<open>
  A service over a ledger, whose fetchers return a fixed payload, and the store in which
  the example client's counter for the window of second 125 stands at 100.
\<close>

definition example_service :: "cynix_token \<Rightarrow> data_access_service" where
  "example_service token =
     \<lparr> cynix_token = token,
       fetch_github_data = (\<lambda>params. Inr [(''stars'', JInt 5)]),
       fetch_twitter_data = (\<lambda>params. Inr [(''followers'', JInt 7)]),
       fetch_blockchain_data = (\<lambda>params. Inl (OtherException ''rpc timeout'')),
       get_metric_data_points = (\<lambda>metric start_time' end_time'. Inr (JList [])),
       aggregate_by_interval =
         (\<lambda>data_points start_time' end_time' interval. Inr (JList [JInt interval])) \<rparr>"

definition world_at_limit :: world where
  "world_at_limit =
     empty_world\<lparr>redis := (redis empty_world)
       \<lparr>counters := [window_key ''10.0.0.1'' 125 \<mapsto> (100, Some 180)]\<rparr>\<rparr>"

text \<open>An API key signed with the server's key, for a wallet, with an expiry time.\<close>

definition example_api_key :: "int \<Rightarrow> api_key" where
  "example_api_key e =
     \<lparr> well_formed = True, alg = ''HS256'', signature_valid = True,
       claim_exp = Some e, claim_wallet_address = Some ''wallet1'' \<rparr>"

section \<open>Access evaluation\<close>

lemma check_access_level_Inr:
  assumes "check_access_level lib self wallet_address = Inr info"
  obtains pubkey token_accounts total_balance where
    "PublicKey (client self) wallet_address = Inr pubkey"
    "get_token_accounts_by_owner (client self) pubkey (token_mint self) = Inr token_accounts"
    "sum_balances 0 token_accounts = Inr total_balance"
    "info = access_dict
       (total_balance + (case get_staking_info self pubkey of None \<Rightarrow> 0 | Some s \<Rightarrow> amount s))
       (case get_staking_info self pubkey of None \<Rightarrow> 0 | Some s \<Rightarrow> amount s)"
  using assms
  by (auto simp: check_access_level_def Let_def split: sum.splits)

lemma example_check_access_level:
  "sum_balances 0 accounts = Inr tot \<Longrightarrow>
   check_access_level lib (example_token accounts staking) ''wallet1'' =
     Inr (access_dict
            (tot + (case staking of None \<Rightarrow> 0 | Some d \<Rightarrow> amount (parse_staking_data d)))
            (case staking of None \<Rightarrow> 0 | Some d \<Rightarrow> amount (parse_staking_data d)))"
  by (simp add: check_access_level_def example_token_def example_client_def
      get_staking_info_def Let_def split: option.splits)

text \<open>
  Claim C5. Whenever \<open>check_access_level\<close> succeeds, the dictionary it returns is
  determined by its \<open>total_tokens\<close> and \<open>staked_amount\<close> entries alone:
  \<open>alpha_access\<close> holds iff \<open>total_tokens \<ge> 1000\<close>, \<open>raw_data_access\<close> iff
  \<open>staked_amount \<ge> 5000\<close>, \<open>api_access\<close> iff \<open>total_tokens \<ge> 10000\<close> and
  \<open>governance_access\<close> iff \<open>total_tokens \<ge> 50000\<close>. At \<open>total_tokens = 999\<close>
  \<open>alpha_access\<close> is false, at \<open>total_tokens = 1000\<close> it is true.
\<close>

theorem check_access_level_thresholds:
  assumes "check_access_level lib self wallet_address = Inr info"
  shows "info = access_dict (total_tokens info) (staked_amount info)
       \<and> alpha_access (access_levels info) = (total_tokens info \<ge> 1000)
       \<and> raw_data_access (access_levels info) = (staked_amount info \<ge> 5000)
       \<and> api_access (access_levels info) = (total_tokens info \<ge> 10000)
       \<and> governance_access (access_levels info) = (total_tokens info \<ge> 50000)
       \<and> (total_tokens info = 999 \<longrightarrow> \<not> alpha_access (access_levels info))
       \<and> (total_tokens info = 1000 \<longrightarrow> alpha_access (access_levels info))"
proof -
  from assms obtain t s where "info = access_dict t s"
    by (rule check_access_level_Inr)
  then show ?thesis
    by (simp add: access_dict_def)
qed

theorem check_access_level_thresholds_witness:
  "check_access_level example_lib (example_token [Inr 999] None) ''wallet1''
     = Inr (access_dict 999 0)
   \<and> \<not> alpha_access (access_levels (access_dict 999 0))
   \<and> check_access_level example_lib (example_token [Inr 400, Inr 600] None) ''wallet1''
     = Inr (access_dict 1000 0)
   \<and> alpha_access (access_levels (access_dict 1000 0))"
proof -
  have a: "check_access_level example_lib (example_token [Inr 999] None) ''wallet1''
             = Inr (access_dict 999 0)"
    using example_check_access_level [of "[Inr 999]" 999 example_lib None] by simp
  have b: "check_access_level example_lib (example_token [Inr 400, Inr 600] None) ''wallet1''
             = Inr (access_dict 1000 0)"
    using example_check_access_level [of "[Inr 400, Inr 600]" 1000 example_lib None] by simp
  have ta: "total_tokens (access_dict 999 0) = 999" and tb: "total_tokens (access_dict 1000 0) = 1000"
    by (simp_all add: access_dict_def)
  from check_access_level_thresholds [OF a] check_access_level_thresholds [OF b] a b ta tb
  show ?thesis by simp
qed

text \<open>
  Claim C7. Access evaluation is monotone: when \<open>check_access_level\<close> succeeds for two
  ledger states, and neither \<open>total_tokens\<close> nor \<open>staked_amount\<close> is smaller in the
  second result than in the first, every tier granted in the first result is granted in
  the second. Increasing one of the two while the other is fixed is the special case.
\<close>

theorem check_access_level_monotone:
  assumes "check_access_level lib self wallet_address = Inr info"
    and "check_access_level lib' self' wallet_address' = Inr info'"
    and "total_tokens info \<le> total_tokens info'"
    and "staked_amount info \<le> staked_amount info'"
  shows "(alpha_access (access_levels info) \<longrightarrow> alpha_access (access_levels info'))
       \<and> (raw_data_access (access_levels info) \<longrightarrow> raw_data_access (access_levels info'))
       \<and> (api_access (access_levels info) \<longrightarrow> api_access (access_levels info'))
       \<and> (governance_access (access_levels info) \<longrightarrow> governance_access (access_levels info'))"
proof -
  from assms(1) obtain t s where i: "info = access_dict t s"
    by (rule check_access_level_Inr)
  from assms(2) obtain t' s' where i': "info' = access_dict t' s'"
    by (rule check_access_level_Inr)
  from assms(3,4) show ?thesis
    unfolding i i' by (simp add: access_dict_def)
qed

theorem check_access_level_monotone_witness:
  "check_access_level example_lib (example_token [Inr 12000] None) ''wallet1''
     = Inr (access_dict 12000 0)
   \<and> check_access_level example_lib (example_token [Inr 12000, Inr 40000] None) ''wallet1''
     = Inr (access_dict 52000 0)
   \<and> api_access (access_levels (access_dict 12000 0))
   \<and> api_access (access_levels (access_dict 52000 0))"
proof -
  have a: "check_access_level example_lib (example_token [Inr 12000] None) ''wallet1''
             = Inr (access_dict 12000 0)"
    using example_check_access_level [of "[Inr 12000]" 12000 example_lib None] by simp
  have b: "check_access_level example_lib (example_token [Inr 12000, Inr 40000] None) ''wallet1''
             = Inr (access_dict 52000 0)"
    using example_check_access_level [of "[Inr 12000, Inr 40000]" 52000 example_lib None] by simp
  have le: "total_tokens (access_dict 12000 0) \<le> total_tokens (access_dict 52000 0)"
    "staked_amount (access_dict 12000 0) \<le> staked_amount (access_dict 52000 0)"
    by (simp_all add: access_dict_def)
  have g: "api_access (access_levels (access_dict 12000 0))"
    by (simp add: access_dict_def)
  from check_access_level_monotone [OF a b le] g a b show ?thesis by simp
qed

section \<open>Token totals\<close>

lemma sum_balances_Inr:
  "sum_balances acc accounts = Inr t \<Longrightarrow>
   \<exists>balances. accounts = map Inr balances \<and> t = acc + sum_list balances"
proof (induction accounts arbitrary: acc)
  case Nil
  then show ?case by simp
next
  case (Cons a accounts)
  then obtain b where a: "a = Inr b" and r: "sum_balances (acc + b) accounts = Inr t"
    by (cases a) auto
  from Cons.IH [OF r] obtain bs where "accounts = map Inr bs" "t = acc + b + sum_list bs"
    by blast
  then have "a # accounts = map Inr (b # bs) \<and> t = acc + sum_list (b # bs)"
    using a by simp
  then show ?case by (rule exI [where x = "b # bs"])
qed

lemma parse_small_staking_bytes:
  "parse_staking_data (small_staking_bytes a)
     = \<lparr> amount = uint a, start_time = 0, last_claim = 0 \<rparr>"
  by (simp add: parse_staking_data_def py_slice_def small_staking_bytes_def)

text \<open>
  Claim C6, as the code has it. Whenever \<open>check_access_level\<close> succeeds, every token
  account of the wallet has a balance, \<open>staked_amount\<close> is the amount of the wallet's
  staking account (0 when there is none or it cannot be read), and \<open>total_tokens\<close> is the
  sum of the token-account balances plus \<open>staked_amount\<close>.
\<close>

theorem check_access_level_total_tokens:
  assumes "check_access_level lib self wallet_address = Inr info"
  shows "\<exists>pubkey balances.
           PublicKey (client self) wallet_address = Inr pubkey
         \<and> get_token_accounts_by_owner (client self) pubkey (token_mint self)
             = Inr (map Inr balances)
         \<and> staked_amount info
             = (case get_staking_info self pubkey of None \<Rightarrow> 0 | Some s \<Rightarrow> amount s)
         \<and> total_tokens info = sum_list balances + staked_amount info"
proof -
  from assms obtain pubkey token_accounts total_balance where
    p: "PublicKey (client self) wallet_address = Inr pubkey" and
    g: "get_token_accounts_by_owner (client self) pubkey (token_mint self) = Inr token_accounts" and
    s: "sum_balances 0 token_accounts = Inr total_balance" and
    i: "info = access_dict
       (total_balance + (case get_staking_info self pubkey of None \<Rightarrow> 0 | Some s \<Rightarrow> amount s))
       (case get_staking_info self pubkey of None \<Rightarrow> 0 | Some s \<Rightarrow> amount s)"
    by (rule check_access_level_Inr)
  from sum_balances_Inr [OF s] obtain balances where
    b: "token_accounts = map Inr balances" "total_balance = sum_list balances"
    by auto
  show ?thesis
    using p g b i by (auto simp: access_dict_def)
qed

theorem check_access_level_total_tokens_witness:
  "check_access_level example_lib (example_token [Inr 100, Inr 20] None) ''wallet1''
     = Inr (access_dict 120 0)
   \<and> (\<exists>pubkey balances.
           PublicKey (client (example_token [Inr 100, Inr 20] None)) ''wallet1'' = Inr pubkey
         \<and> get_token_accounts_by_owner (client (example_token [Inr 100, Inr 20] None)) pubkey
              (token_mint (example_token [Inr 100, Inr 20] None))
             = Inr (map Inr balances)
         \<and> staked_amount (access_dict 120 0)
             = (case get_staking_info (example_token [Inr 100, Inr 20] None) pubkey of
                  None \<Rightarrow> 0 | Some s \<Rightarrow> amount s)
         \<and> total_tokens (access_dict 120 0) = sum_list balances + staked_amount (access_dict 120 0))"
proof -
  have a: "check_access_level example_lib (example_token [Inr 100, Inr 20] None) ''wallet1''
             = Inr (access_dict 120 0)"
    using example_check_access_level [of "[Inr 100, Inr 20]" 120 example_lib None] by simp
  from check_access_level_total_tokens [OF a] a show ?thesis by simp
qed

text \<open>
  Claim C6 as stated fails: a wallet with one token account of balance 100 and a staking
  account of amount 50 gets \<open>total_tokens = 150\<close>, not the sum 100 of its token-account
  balances.
\<close>

theorem check_access_level_total_tokens_counterexample:
  "check_access_level example_lib (example_token [Inr 100] (Some (small_staking_bytes 50))) ''wallet1''
     = Inr (access_dict 150 50)
   \<and> total_tokens (access_dict 150 50) \<noteq> sum_list [100]"
proof -
  have "check_access_level example_lib (example_token [Inr 100] (Some (small_staking_bytes 50))) ''wallet1''
     = Inr (access_dict 150 50)"
    using example_check_access_level [of "[Inr 100]" 100 example_lib "Some (small_staking_bytes 50)"]
    by (simp add: parse_small_staking_bytes)
  then show ?thesis by (simp add: access_dict_def)
qed

section \<open>Decoding the staking account\<close>

lemma from_bytes_little_sum:
  "from_bytes_little bs = (\<Sum>i<length bs. uint (bs ! i) * 256 ^ i)"
proof (induction bs)
  case Nil
  then show ?case by simp
next
  case (Cons b bs)
  show ?case
    by (simp add: Cons.IH sum.lessThan_Suc_shift sum_distrib_left mult_ac del: sum.lessThan_Suc)
qed

lemma from_bytes_little_zeros:
  "from_bytes_little (bs @ replicate n 0) = from_bytes_little bs"
proof (induction bs)
  case Nil
  show ?case by (induction n) simp_all
next
  case (Cons b bs)
  then show ?case by simp
qed

lemma py_slice_zeros:
  "\<exists>m. py_slice i j (xs @ replicate n 0) = py_slice i j xs @ replicate m 0"
  by (simp add: py_slice_def)

lemma from_bytes_little_py_slice_zeros:
  "from_bytes_little (py_slice i j (xs @ replicate n 0)) = from_bytes_little (py_slice i j xs)"
proof -
  obtain m where "py_slice i j (xs @ replicate n 0) = py_slice i j xs @ replicate m 0"
    using py_slice_zeros by blast
  then show ?thesis by (simp add: from_bytes_little_zeros)
qed

lemma from_bytes_little_py_slice:
  assumes "j \<le> length xs" "i \<le> j"
  shows "from_bytes_little (py_slice i j xs) = (\<Sum>k<j - i. uint (xs ! (i + k)) * 256 ^ k)"
proof -
  have len: "length (py_slice i j xs) = j - i"
    using assms by (simp add: py_slice_def)
  have "(\<Sum>k<j - i. uint (py_slice i j xs ! k) * 256 ^ k)
      = (\<Sum>k<j - i. uint (xs ! (i + k)) * 256 ^ k)"
    using assms by (intro sum.cong) (simp_all add: py_slice_def)
  then show ?thesis
    by (simp add: from_bytes_little_sum len)
qed

text \<open>
  Claim C9, as the code has it. For data of at least 24 bytes, \<open>amount\<close>,
  \<open>start_time\<close> and \<open>last_claim\<close> are the little-endian values of the bytes [0:8),
  [8:16) and [16:24). Decoding has no error result: data of any length decodes as the same
  data padded with zero bytes to 24 bytes does, and \<open>_get_staking_info\<close> returns the
  decoded fields whenever the account exists.
\<close>

theorem parse_staking_data_layout:
  "(24 \<le> length data \<longrightarrow>
       amount (parse_staking_data data) = (\<Sum>k<8. uint (data ! k) * 256 ^ k)
     \<and> start_time (parse_staking_data data) = (\<Sum>k<8. uint (data ! (8 + k)) * 256 ^ k)
     \<and> last_claim (parse_staking_data data) = (\<Sum>k<8. uint (data ! (16 + k)) * 256 ^ k))
   \<and> parse_staking_data data = parse_staking_data (data @ replicate (24 - length data) 0)
   \<and> (get_account_info (client self) (derive_staking_address self wallet) = Inr (Some data)
        \<longrightarrow> get_staking_info self wallet = Some (parse_staking_data data))"
proof -
  have a: "24 \<le> length data \<longrightarrow>
       amount (parse_staking_data data) = (\<Sum>k<8. uint (data ! k) * 256 ^ k)
     \<and> start_time (parse_staking_data data) = (\<Sum>k<8. uint (data ! (8 + k)) * 256 ^ k)
     \<and> last_claim (parse_staking_data data) = (\<Sum>k<8. uint (data ! (16 + k)) * 256 ^ k)"
    using from_bytes_little_py_slice [of 8 data 0] from_bytes_little_py_slice [of 16 data 8]
      from_bytes_little_py_slice [of 24 data 16]
    by (simp add: parse_staking_data_def)
  have b: "parse_staking_data data = parse_staking_data (data @ replicate (24 - length data) 0)"
    by (simp only: parse_staking_data_def from_bytes_little_py_slice_zeros)
  have c: "get_account_info (client self) (derive_staking_address self wallet) = Inr (Some data)
        \<longrightarrow> get_staking_info self wallet = Some (parse_staking_data data)"
    by (simp add: get_staking_info_def)
  from a b c show ?thesis by blast
qed

theorem parse_staking_data_layout_witness:
  "24 \<le> length example_staking_bytes
   \<and> get_account_info (client (example_token [] (Some example_staking_bytes)))
        (derive_staking_address (example_token [] (Some example_staking_bytes)) (replicate 32 7))
       = Inr (Some example_staking_bytes)
   \<and> get_staking_info (example_token [] (Some example_staking_bytes)) (replicate 32 7)
       = Some (parse_staking_data example_staking_bytes)
   \<and> amount (parse_staking_data example_staking_bytes)
       = (\<Sum>k<8. uint (example_staking_bytes ! k) * 256 ^ k)
   \<and> parse_staking_data example_staking_bytes
       = \<lparr> amount = 10000, start_time = 1700000000, last_claim = 1700003600 \<rparr>"
proof -
  have h1: "24 \<le> length example_staking_bytes"
    by (simp add: example_staking_bytes_def)
  have h2: "get_account_info (client (example_token [] (Some example_staking_bytes)))
        (derive_staking_address (example_token [] (Some example_staking_bytes)) (replicate 32 7))
       = Inr (Some example_staking_bytes)"
    by (simp add: example_token_def example_client_def)
  have v: "parse_staking_data example_staking_bytes
       = \<lparr> amount = 10000, start_time = 1700000000, last_claim = 1700003600 \<rparr>"
    by (simp add: parse_staking_data_def py_slice_def example_staking_bytes_def)
  from parse_staking_data_layout
         [of example_staking_bytes "example_token [] (Some example_staking_bytes)" "replicate 32 7"]
       h1 h2 v
  show ?thesis by simp
qed

text \<open>
  Claim C9 as stated fails: a staking account of one byte, shorter than 24 bytes, decodes
  to an amount and two zero times; no error results.
\<close>

theorem parse_staking_data_short_counterexample:
  "length [5 :: byte] < 24
   \<and> get_staking_info (example_token [] (Some [5])) (replicate 32 7)
       = Some \<lparr> amount = 5, start_time = 0, last_claim = 0 \<rparr>"
  by (simp add: get_staking_info_def example_token_def example_client_def
        parse_staking_data_def py_slice_def)

section \<open>The rate limiter\<close>





lemma fst_redis_incr: "fst (redis_incr key t r) = counter_value key t r + 1"
  by (simp add: redis_incr_def counter_value_def split: option.splits)

lemma fst_count_request: "fst (count_request key t r) = counter_value key t r + 1"
  by (simp add: count_request_def Let_def split_beta fst_redis_incr)



lemma dispatch_count_request:
  "dispatch call_next request current w =
     (let (request_count, r2) = count_request (window_key (client_id_of request) current) current (redis w);
          w2 = w\<lparr>redis := r2\<rparr>
      in if request_count > rate_limit
         then (Inl rate_limit_exceeded, w2)
         else (case call_next request w2 of
                 (Inl e, w3) \<Rightarrow> (Inl e, w3)
               | (Inr response, w3) \<Rightarrow>
                   (Inr (response\<lparr>headers :=
                      AList.update ''X-RateLimit-Reset''
                        (str_nat ((current div window * window) + window))
                        (AList.update ''X-RateLimit-Remaining''
                           (str_int (max 0 (rate_limit - request_count)))
                           (AList.update ''X-RateLimit-Limit'' (str_int rate_limit)
                              (headers response)))\<rparr>), w3)))"
  by (cases "redis_incr (window_key (client_id_of request) current) current (redis w)")
     (simp add: dispatch_def count_request_def Let_def rate_limit_exceeded_def)


lemma not_rejected_Inr [simp]: "\<not> rejected (Inr response)"
  by (simp add: rejected_def)

lemma dispatch_cases:
  obtains
    (reject) "rate_limit < counter_value (window_key (client_id_of request) current) current (redis w) + 1"
      "dispatch call_next request current w =
         (Inl rate_limit_exceeded,
          w\<lparr>redis := snd (count_request (window_key (client_id_of request) current) current (redis w))\<rparr>)"
  | (admit) "counter_value (window_key (client_id_of request) current) current (redis w) + 1 \<le> rate_limit"
      "snd (dispatch call_next request current w) =
         snd (call_next request
           (w\<lparr>redis := snd (count_request (window_key (client_id_of request) current) current (redis w))\<rparr>))"
      "rejected (fst (dispatch call_next request current w)) =
         rejected (fst (call_next request
           (w\<lparr>redis := snd (count_request (window_key (client_id_of request) current) current (redis w))\<rparr>)))"
proof (cases "rate_limit < counter_value (window_key (client_id_of request) current) current (redis w) + 1")
  case True
  then have "dispatch call_next request current w =
         (Inl rate_limit_exceeded,
          w\<lparr>redis := snd (count_request (window_key (client_id_of request) current) current (redis w))\<rparr>)"
    using fst_count_request [of "window_key (client_id_of request) current" current "redis w"]
    by (simp add: dispatch_count_request split_beta Let_def)
  with True show ?thesis by (rule reject)
next
  case False
  then have d: "dispatch call_next request current w =
     (case call_next request
         (w\<lparr>redis := snd (count_request (window_key (client_id_of request) current) current (redis w))\<rparr>) of
                 (Inl e, w3) \<Rightarrow> (Inl e, w3)
               | (Inr response, w3) \<Rightarrow>
                   (Inr (response\<lparr>headers :=
                      AList.update ''X-RateLimit-Reset''
                        (str_nat ((current div window * window) + window))
                        (AList.update ''X-RateLimit-Remaining''
                           (str_int (max 0 (rate_limit - fst (count_request (window_key (client_id_of request) current) current (redis w)))))
                           (AList.update ''X-RateLimit-Limit'' (str_int rate_limit)
                              (headers response)))\<rparr>), w3))"
    using fst_count_request [of "window_key (client_id_of request) current" current "redis w"]
    by (simp add: dispatch_count_request split_beta Let_def)
  have "snd (dispatch call_next request current w) =
         snd (call_next request
           (w\<lparr>redis := snd (count_request (window_key (client_id_of request) current) current (redis w))\<rparr>))"
    unfolding d by (simp split: prod.splits sum.splits)
  moreover have "rejected (fst (dispatch call_next request current w)) =
         rejected (fst (call_next request
           (w\<lparr>redis := snd (count_request (window_key (client_id_of request) current) current (redis w))\<rparr>)))"
    unfolding d by (simp add: rejected_def split: prod.splits sum.splits)
  ultimately show ?thesis using False by (intro admit) simp_all
qed







section \<open>Rate-limit headers\<close>

lemma str_int_100: "str_int 100 = ''100''"
  by (simp add: str_int_def str_nat.simps digit_char_def)

lemma dispatch_rejected_result:
  assumes "rate_limit < counter_value (window_key (client_id_of request) t) t (redis w) + 1"
  shows "fst (dispatch call_next request t w)
           = Inl (HTTPException 429 (JStr ''Rate limit exceeded'') [])"
  using assms
  by (rule_tac dispatch_cases [of request t w call_next])
     (simp_all add: rate_limit_exceeded_def)

lemma dispatch_admitted_result:
  assumes c: "counter_value (window_key (client_id_of request) t) t (redis w) + 1 \<le> rate_limit"
    and r: "fst (call_next request
              (w\<lparr>redis := snd (count_request (window_key (client_id_of request) t) t (redis w))\<rparr>))
            = Inr response"
  shows "fst (dispatch call_next request t w) =
     Inr (response\<lparr>headers :=
            AList.update ''X-RateLimit-Reset'' (str_nat ((t div window * window) + window))
              (AList.update ''X-RateLimit-Remaining''
                 (str_int (max 0 (rate_limit -
                     (counter_value (window_key (client_id_of request) t) t (redis w) + 1))))
                 (AList.update ''X-RateLimit-Limit'' (str_int rate_limit) (headers response)))\<rparr>)"
  using c r fst_count_request [of "window_key (client_id_of request) t" t "redis w"]
  by (simp add: dispatch_count_request split_beta Let_def split: sum.splits prod.splits)

text \<open>
  Claim C8, on the code. A request whose incremented count is above 100 is answered by
  raising \<open>HTTPException(429, "Rate limit exceeded")\<close>, which carries no headers: the
  three header assignments come after the \<open>raise\<close>. A request whose incremented count
  is at most 100 and whose handler returns a response gets \<open>X-RateLimit-Limit = 100\<close>,
  \<open>X-RateLimit-Remaining = max(0, 100 - count)\<close> and
  \<open>X-RateLimit-Reset = (current // 60) * 60 + 60\<close>.
\<close>

theorem dispatch_rate_limit_headers:
  "(rate_limit < counter_value (window_key (client_id_of request) t) t (redis w) + 1 \<longrightarrow>
      fst (dispatch call_next request t w)
        = Inl (HTTPException 429 (JStr ''Rate limit exceeded'') []))
   \<and> (counter_value (window_key (client_id_of request) t) t (redis w) + 1 \<le> rate_limit
        \<and> fst (call_next request
              (w\<lparr>redis := snd (count_request (window_key (client_id_of request) t) t (redis w))\<rparr>))
            = Inr response \<longrightarrow>
      (\<exists>answer. fst (dispatch call_next request t w) = Inr answer
         \<and> status_code answer = status_code response
         \<and> map_of (headers answer) ''X-RateLimit-Limit'' = Some ''100''
         \<and> map_of (headers answer) ''X-RateLimit-Remaining''
             = Some (str_int (max 0 (100 -
                  (counter_value (window_key (client_id_of request) t) t (redis w) + 1))))
         \<and> map_of (headers answer) ''X-RateLimit-Reset''
             = Some (str_nat ((t div 60) * 60 + 60))))"
proof (intro conjI impI)
  assume "rate_limit < counter_value (window_key (client_id_of request) t) t (redis w) + 1"
  then show "fst (dispatch call_next request t w)
        = Inl (HTTPException 429 (JStr ''Rate limit exceeded'') [])"
    by (rule dispatch_rejected_result)
next
  assume a: "counter_value (window_key (client_id_of request) t) t (redis w) + 1 \<le> rate_limit
        \<and> fst (call_next request
              (w\<lparr>redis := snd (count_request (window_key (client_id_of request) t) t (redis w))\<rparr>))
            = Inr response"
  show "\<exists>answer. fst (dispatch call_next request t w) = Inr answer
         \<and> status_code answer = status_code response
         \<and> map_of (headers answer) ''X-RateLimit-Limit'' = Some ''100''
         \<and> map_of (headers answer) ''X-RateLimit-Remaining''
             = Some (str_int (max 0 (100 -
                  (counter_value (window_key (client_id_of request) t) t (redis w) + 1))))
         \<and> map_of (headers answer) ''X-RateLimit-Reset''
             = Some (str_nat ((t div 60) * 60 + 60))"
    using dispatch_admitted_result [of request t w call_next response] a str_int_100
    by (simp add: update_conv' rate_limit_def window_def)
qed

lemma counter_value_world_at_limit:
  "counter_value (window_key (client_id_of example_request) 125) 125 (redis world_at_limit) = 100"
  by (simp add: counter_value_def live_def world_at_limit_def empty_world_def
      client_id_of_def example_request_def)

theorem dispatch_rate_limit_headers_witness:
  "rate_limit < counter_value (window_key (client_id_of example_request) 125) 125
                  (redis world_at_limit) + 1
   \<and> fst (dispatch example_handler example_request 125 world_at_limit)
        = Inl (HTTPException 429 (JStr ''Rate limit exceeded'') [])
   \<and> counter_value (window_key (client_id_of example_request) 125) 125 (redis empty_world) + 1
        \<le> rate_limit
   \<and> (\<exists>answer. fst (dispatch example_handler example_request 125 empty_world) = Inr answer
         \<and> status_code answer = 200
         \<and> map_of (headers answer) ''X-RateLimit-Limit'' = Some ''100''
         \<and> map_of (headers answer) ''X-RateLimit-Remaining'' = Some (str_int (max 0 (100 - 1)))
         \<and> map_of (headers answer) ''X-RateLimit-Reset'' = Some (str_nat ((125 div 60) * 60 + 60)))"
proof -
  have h1: "rate_limit < counter_value (window_key (client_id_of example_request) 125) 125
                  (redis world_at_limit) + 1"
    by (simp add: counter_value_world_at_limit rate_limit_def)
  have c0: "counter_value (window_key (client_id_of example_request) 125) 125 (redis empty_world) = 0"
    by (simp add: counter_value_def live_def empty_world_def)
  have h2: "counter_value (window_key (client_id_of example_request) 125) 125 (redis empty_world) + 1
        \<le> rate_limit"
    by (simp add: c0 rate_limit_def)
  have h3: "fst (example_handler example_request
              (empty_world\<lparr>redis := snd (count_request (window_key (client_id_of example_request) 125)
                  125 (redis empty_world))\<rparr>))
            = Inr \<lparr> status_code = 200, headers = [], body = JDict [] \<rparr>"
    by (simp add: example_handler_def)
  from dispatch_rate_limit_headers [of example_request 125 world_at_limit example_handler]
    dispatch_rate_limit_headers [of example_request 125 empty_world example_handler
       "\<lparr> status_code = 200, headers = [], body = JDict [] \<rparr>"]
    h1 h2 h3 c0
  show ?thesis by simp
qed

section \<open>Credential verification\<close>

lemma jwt_decode_Inr:
  "jwt_decode k now = Inr p \<longleftrightarrow>
     p = k \<and> well_formed k \<and> alg k = ''HS256'' \<and> signature_valid k
       \<and> (\<forall>e. claim_exp k = Some e \<longrightarrow> now < e * 1000000)"
  by (auto simp: jwt_decode_def split: option.splits)

lemma verify_api_key_expired_message:
  assumes "verify_api_key utc_offset k now = Inl (HTTPException 401 (JStr ''API key expired'') [])"
  shows "\<exists>e. claim_exp k = Some e \<and> now < e * 1000000 \<and> utc_offset < 0"
proof -
  from assms obtain p e where p: "jwt_decode k now = Inr p" and e: "claim_exp p = Some e"
    and lt: "(e + utc_offset) * 1000000 < now"
    by (auto simp: verify_api_key_def split: sum.splits option.splits if_splits)
  from p have "p = k" and "\<forall>e. claim_exp k = Some e \<longrightarrow> now < e * 1000000"
    by (simp_all add: jwt_decode_Inr)
  with e have "claim_exp k = Some e" "now < e * 1000000" by simp_all
  with lt show ?thesis by auto
qed

text \<open>
  Claim C3, on the code. A well-formed, correctly signed key whose \<open>exp\<close> is not after
  the time of verification is rejected with 401 \<open>Invalid API key\<close>, the detail a key
  with a bad signature gets: \<open>jwt.decode\<close> raises \<open>ExpiredSignatureError\<close> for it, a
  subclass of the \<open>InvalidTokenError\<close> that the \<open>except\<close> clause catches, and the
  check that raises \<open>API key expired\<close> is not reached. A correctly signed key whose
  \<open>exp\<close> is in the future returns its \<open>wallet_address\<close> claim, on a server whose
  local time is not behind UTC.
\<close>

theorem verify_api_key_results:
  "(well_formed k \<and> alg k = ''HS256'' \<and> signature_valid k
      \<and> claim_exp k = Some e \<and> e * 1000000 \<le> now \<longrightarrow>
        verify_api_key utc_offset k now = Inl (HTTPException 401 (JStr ''Invalid API key'') []))
   \<and> (\<not> signature_valid k \<longrightarrow>
        verify_api_key utc_offset k now = Inl (HTTPException 401 (JStr ''Invalid API key'') []))
   \<and> (well_formed k \<and> alg k = ''HS256'' \<and> signature_valid k
      \<and> claim_exp k = Some e \<and> now < e * 1000000 \<and> 0 \<le> utc_offset
      \<and> claim_wallet_address k = Some wallet \<longrightarrow>
        verify_api_key utc_offset k now = Inr wallet)"
proof (intro conjI impI)
  assume "well_formed k \<and> alg k = ''HS256'' \<and> signature_valid k
      \<and> claim_exp k = Some e \<and> e * 1000000 \<le> now"
  then show "verify_api_key utc_offset k now = Inl (HTTPException 401 (JStr ''Invalid API key'') [])"
    by (simp add: verify_api_key_def jwt_decode_def)
next
  assume "\<not> signature_valid k"
  then show "verify_api_key utc_offset k now = Inl (HTTPException 401 (JStr ''Invalid API key'') [])"
    by (simp add: verify_api_key_def jwt_decode_def)
next
  assume a: "well_formed k \<and> alg k = ''HS256'' \<and> signature_valid k
      \<and> claim_exp k = Some e \<and> now < e * 1000000 \<and> 0 \<le> utc_offset
      \<and> claim_wallet_address k = Some wallet"
  then have "e * 1000000 \<le> (e + utc_offset) * 1000000" by simp
  with a have "\<not> (e + utc_offset) * 1000000 < now" by linarith
  with a show "verify_api_key utc_offset k now = Inr wallet"
    by (simp add: verify_api_key_def jwt_decode_def)
qed

theorem verify_api_key_results_witness:
  "verify_api_key 0 (example_api_key 1000) 2000000000
     = Inl (HTTPException 401 (JStr ''Invalid API key'') [])
   \<and> verify_api_key 0 ((example_api_key 3000)\<lparr>signature_valid := False\<rparr>) 2000000000
     = Inl (HTTPException 401 (JStr ''Invalid API key'') [])
   \<and> verify_api_key 0 (example_api_key 3000) 2000000000 = Inr ''wallet1''"
proof -
  have h1: "well_formed (example_api_key 1000) \<and> alg (example_api_key 1000) = ''HS256''
      \<and> signature_valid (example_api_key 1000)
      \<and> claim_exp (example_api_key 1000) = Some 1000 \<and> 1000 * 1000000 \<le> (2000000000 :: int)"
    by (simp add: example_api_key_def)
  have h2: "\<not> signature_valid ((example_api_key 3000)\<lparr>signature_valid := False\<rparr>)"
    by simp
  have h3: "well_formed (example_api_key 3000) \<and> alg (example_api_key 3000) = ''HS256''
      \<and> signature_valid (example_api_key 3000)
      \<and> claim_exp (example_api_key 3000) = Some 3000 \<and> (2000000000 :: int) < 3000 * 1000000
      \<and> (0 :: int) \<le> 0
      \<and> claim_wallet_address (example_api_key 3000) = Some ''wallet1''"
    by (simp add: example_api_key_def)
  from verify_api_key_results [of "example_api_key 1000" 1000 2000000000 0]
    verify_api_key_results [of "(example_api_key 3000)\<lparr>signature_valid := False\<rparr>" 3000 2000000000 0]
    verify_api_key_results [of "example_api_key 3000" 3000 2000000000 0 "''wallet1''"]
    h1 h2 h3
  show ?thesis by blast
qed

section \<open>Raw data without stake\<close>

lemma check_access_level_raw_data_access:
  assumes "check_access_level lib self wallet_address = Inr info"
  shows "raw_data_access (access_levels info) \<longleftrightarrow> 5000 \<le> staked_amount info"
proof -
  from assms obtain t s where "info = access_dict t s"
    by (rule check_access_level_Inr)
  then show ?thesis by (simp add: access_dict_def)
qed

lemma get_raw_data_insufficient:
  assumes "check_access_level lib (cynix_token svc) wallet_address = Inr info"
    and "staked_amount info < 5000"
  shows "get_raw_data lib svc wallet_address data_type params now w
           = (error_dict ''Insufficient token stake for raw data access'', w)"
  using assms check_access_level_raw_data_access [OF assms(1)]
  by (simp add: get_raw_data_def)

text \<open>
  Claim C1, on the code. For a wallet whose \<open>staked_amount\<close> is below 5000,
  \<open>get_raw_data\<close> returns the insufficient-stake error dictionary and leaves the store
  and the fetchers untouched. \<open>get_data\<close> raises the 403 for it inside its \<open>try\<close>,
  where \<open>except Exception\<close> catches it: the request is answered with status 500, whose
  detail is the text of the 403 exception.
\<close>

theorem get_data_insufficient_stake:
  assumes "check_access_level lib (cynix_token svc) wallet_address = Inr info"
    and "staked_amount info < 5000"
  shows "get_raw_data lib svc wallet_address data_type params now w
           = (error_dict ''Insufficient token stake for raw data access'', w)
       \<and> get_data lib svc data_type wallet_address params now w
           = (Inl (HTTPException 500
                (JStr (str_http_exception lib 403
                   (JStr ''Insufficient token stake for raw data access''))) []), w)"
  using get_raw_data_insufficient [OF assms]
  by (simp add: get_data_def error_dict_def str_exn_def)

lemma str_nat_403: "str_nat 403 = ''403''"
  by (simp add: str_nat.simps digit_char_def)

theorem get_data_insufficient_stake_witness:
  "check_access_level example_lib
       (cynix_token (example_service (example_token [Inr 11800] (Some (small_staking_bytes 200))))) ''wallet1''
     = Inr (access_dict 12000 200)
   \<and> staked_amount (access_dict 12000 200) < 5000
   \<and> get_data example_lib (example_service (example_token [Inr 11800] (Some (small_staking_bytes 200))))
        ''github'' ''wallet1'' None 1000 empty_world
       = (Inl (HTTPException 500
            (JStr ''403: Insufficient token stake for raw data access'') []), empty_world)"
proof -
  have h1: "check_access_level example_lib
       (cynix_token (example_service (example_token [Inr 11800] (Some (small_staking_bytes 200))))) ''wallet1''
     = Inr (access_dict 12000 200)"
    using example_check_access_level [of "[Inr 11800]" 11800 example_lib "Some (small_staking_bytes 200)"]
    by (simp add: example_service_def parse_small_staking_bytes)
  have h2: "staked_amount (access_dict 12000 200) < 5000"
    by (simp add: access_dict_def)
  have s: "str_http_exception example_lib 403 (JStr ''Insufficient token stake for raw data access'')
      = ''403: Insufficient token stake for raw data access''"
    by (simp add: example_lib_def str_nat_403)
  from get_data_insufficient_stake [OF h1 h2, of "''github''" None 1000 empty_world] h1 h2 s
  show ?thesis by simp
qed

section \<open>The access log\<close>

lemma strings_log_data_access:
  "strings (log_data_access lib wallet data_type params now r) = strings r"
  by (simp add: log_data_access_def redis_ltrim_def redis_lpush_def Let_def)

lemma lrange_log_data_access:
  "redis_lrange_all ''cynix:access_logs'' (log_data_access lib wallet data_type params now r)
     = take 10000 (json_dumps lib (log_entry lib wallet data_type params now)
                     # redis_lrange_all ''cynix:access_logs'' r)"
  by (simp add: log_data_access_def redis_ltrim_def redis_lpush_def redis_lrange_all_def Let_def)

lemma lrange_redis_setex:
  "redis_lrange_all k (redis_setex key ttl v now r) = redis_lrange_all k r"
  by (simp add: redis_lrange_all_def redis_setex_def)

lemma redis_get_setex:
  "t2 < t1 + ttl \<Longrightarrow> redis_get key t2 (redis_setex key ttl v t1 r) = Some v"
  by (simp add: redis_get_def redis_setex_def live_def)

lemma redis_get_strings_cong:
  "strings r = strings r' \<Longrightarrow> redis_get key t r = redis_get key t r'"
  by (simp add: redis_get_def)

lemma get_raw_data_miss:
  assumes acc: "check_access_level lib (cynix_token svc) wallet = Inr info"
      "5000 \<le> staked_amount info"
    and f: "map_of (data_fetchers svc) data_type = Some fetcher"
      "fetcher (params_or_empty params) = Inr data"
    and miss: "redis_get (generate_cache_key lib data_type params) t1 (redis w) = None"
  shows "get_raw_data lib svc wallet data_type params t1 w =
     (data,
      w\<lparr>fetch_calls := (data_type, params_or_empty params) # fetch_calls w,
        redis := log_data_access lib wallet data_type params t1
                   (redis_setex (generate_cache_key lib data_type params) cache_ttl
                      (json_dumps lib (JDict data)) t1 (redis w))\<rparr>)"
  using acc f miss check_access_level_raw_data_access [OF acc(1)]
  by (simp add: get_raw_data_def fetch_raw_data_def Let_def)

lemma get_raw_data_hit:
  assumes acc: "check_access_level lib (cynix_token svc) wallet = Inr info"
      "5000 \<le> staked_amount info"
    and hit: "redis_get (generate_cache_key lib data_type params) t2 (redis w) = Some cached"
      "cached \<noteq> []" "json_loads lib cached = Inr data"
  shows "get_raw_data lib svc wallet data_type params t2 w = (data, w)"
  using acc hit check_access_level_raw_data_access [OF acc(1)]
  by (simp add: get_raw_data_def Let_def)

text \<open>
  Claim C2, on the code. A wallet with \<open>raw_data_access\<close> asks twice for the same
  \<open>(data_type, params)\<close>, the second time less than 300 seconds after the first, with
  nothing cached before. Both calls return the fetcher's payload and the fetcher is called
  once, but the access log gains one entry only, that of the first call: the cache hit
  returns before \<open>_log_data_access\<close>.
\<close>

theorem get_raw_data_cached_call_not_logged:
  assumes acc: "check_access_level lib (cynix_token svc) wallet = Inr info"
      "5000 \<le> staked_amount info"
    and f: "map_of (data_fetchers svc) data_type = Some fetcher"
      "fetcher (params_or_empty params) = Inr data"
    and d: "json_dumps lib (JDict data) \<noteq> []"
      "json_loads lib (json_dumps lib (JDict data)) = Inr data"
    and miss: "redis_get (generate_cache_key lib data_type params) t1 (redis w) = None"
    and t: "t1 \<le> t2" "t2 < t1 + cache_ttl"
  shows "fst (get_raw_data lib svc wallet data_type params t1 w) = data
    \<and> fst (get_raw_data lib svc wallet data_type params t2
              (snd (get_raw_data lib svc wallet data_type params t1 w))) = data
    \<and> fetch_calls (snd (get_raw_data lib svc wallet data_type params t2
              (snd (get_raw_data lib svc wallet data_type params t1 w))))
        = (data_type, params_or_empty params) # fetch_calls w
    \<and> access_log (snd (get_raw_data lib svc wallet data_type params t2
              (snd (get_raw_data lib svc wallet data_type params t1 w))))
        = take 10000 (json_dumps lib (log_entry lib wallet data_type params t1) # access_log w)
    \<and> length (access_log (snd (get_raw_data lib svc wallet data_type params t2
              (snd (get_raw_data lib svc wallet data_type params t1 w)))))
        = min 10000 (length (access_log w) + 1)"
proof -
  let ?key = "generate_cache_key lib data_type params"
  let ?w1 = "w\<lparr>fetch_calls := (data_type, params_or_empty params) # fetch_calls w,
        redis := log_data_access lib wallet data_type params t1
                   (redis_setex ?key cache_ttl (json_dumps lib (JDict data)) t1 (redis w))\<rparr>"
  have first: "get_raw_data lib svc wallet data_type params t1 w = (data, ?w1)"
    by (rule get_raw_data_miss [OF acc f miss])
  have "redis_get ?key t2 (redis ?w1)
      = redis_get ?key t2 (redis_setex ?key cache_ttl (json_dumps lib (JDict data)) t1 (redis w))"
    by (simp add: redis_get_strings_cong [OF strings_log_data_access])
  also have "\<dots> = Some (json_dumps lib (JDict data))"
    using t(2) by (rule redis_get_setex)
  finally have hit: "redis_get ?key t2 (redis ?w1) = Some (json_dumps lib (JDict data))" .
  have second: "get_raw_data lib svc wallet data_type params t2 ?w1 = (data, ?w1)"
    by (rule get_raw_data_hit [OF acc hit d])
  have log: "access_log ?w1
      = take 10000 (json_dumps lib (log_entry lib wallet data_type params t1) # access_log w)"
    by (simp add: access_log_def lrange_log_data_access lrange_redis_setex)
  show ?thesis
    unfolding first second fst_conv snd_conv log
    by (simp add: min_def)
qed

theorem get_raw_data_cached_call_not_logged_witness:
  "fst (get_raw_data example_lib (example_service (example_token [Inr 6000] (Some example_staking_bytes)))
          ''wallet1'' ''github'' None 1000 empty_world) = [(''stars'', JInt 5)]
   \<and> fst (get_raw_data example_lib (example_service (example_token [Inr 6000] (Some example_staking_bytes)))
          ''wallet1'' ''github'' None 1100
          (snd (get_raw_data example_lib
                  (example_service (example_token [Inr 6000] (Some example_staking_bytes)))
                  ''wallet1'' ''github'' None 1000 empty_world))) = [(''stars'', JInt 5)]
   \<and> fetch_calls
        (snd (get_raw_data example_lib (example_service (example_token [Inr 6000] (Some example_staking_bytes)))
          ''wallet1'' ''github'' None 1100
          (snd (get_raw_data example_lib
                  (example_service (example_token [Inr 6000] (Some example_staking_bytes)))
                  ''wallet1'' ''github'' None 1000 empty_world)))) = [(''github'', [])]
   \<and> length (access_log
        (snd (get_raw_data example_lib (example_service (example_token [Inr 6000] (Some example_staking_bytes)))
          ''wallet1'' ''github'' None 1100
          (snd (get_raw_data example_lib
                  (example_service (example_token [Inr 6000] (Some example_staking_bytes)))
                  ''wallet1'' ''github'' None 1000 empty_world))))) = 1"
proof -
  let ?svc = "example_service (example_token [Inr 6000] (Some example_staking_bytes))"
  have p: "parse_staking_data example_staking_bytes
       = \<lparr> amount = 10000, start_time = 1700000000, last_claim = 1700003600 \<rparr>"
    by (simp add: parse_staking_data_def py_slice_def example_staking_bytes_def)
  have h1: "check_access_level example_lib (cynix_token ?svc) ''wallet1''
      = Inr (access_dict 16000 10000)"
    using example_check_access_level [of "[Inr 6000]" 6000 example_lib "Some example_staking_bytes"]
    by (simp add: example_service_def p)
  have h2: "5000 \<le> staked_amount (access_dict 16000 10000)"
    by (simp add: access_dict_def)
  have h3: "map_of (data_fetchers ?svc) ''github'' = Some (\<lambda>params. Inr [(''stars'', JInt 5)])"
    by (simp add: data_fetchers_def example_service_def)
  have h4: "(\<lambda>params. Inr [(''stars'', JInt 5)]) (params_or_empty None)
      = (Inr [(''stars'', JInt 5)] :: exn + jdict)"
    by simp
  have h5: "json_dumps example_lib (JDict [(''stars'', JInt 5)]) \<noteq> []"
    by (simp add: example_lib_def)
  have h6: "json_loads example_lib (json_dumps example_lib (JDict [(''stars'', JInt 5)]))
      = Inr [(''stars'', JInt 5)]"
    by (simp add: example_lib_def)
  have h7: "redis_get (generate_cache_key example_lib ''github'' None) 1000 (redis empty_world) = None"
    by (simp add: redis_get_def live_def empty_world_def)
  have h8: "(1000 :: nat) \<le> 1100" and h9: "(1100 :: nat) < 1000 + cache_ttl"
    by (simp_all add: cache_ttl_def)
  have e: "access_log empty_world = []" "fetch_calls empty_world = []"
    by (simp_all add: access_log_def redis_lrange_all_def empty_world_def)
  from get_raw_data_cached_call_not_logged [OF h1 h2 h3 h4 h5 h6 h7 h8 h9] e
  show ?thesis by (simp add: params_or_empty_def)
qed

section \<open>Analytics\<close>






end
